theory Spec2Isabelle
  imports Complex_Main
begin

section \<open>Arrays and pytrees\<close>

text \<open>
  The notebook \<^verbatim>\<open>examples/quick_start.ipynb\<close> works on three shapes of array: the
  parameter vector \<^verbatim>\<open>params\<close> (shape \<open>(2,)\<close>), the inputs \<^verbatim>\<open>xs\<close> (shape \<open>(16, 2)\<close>) and the
  targets \<^verbatim>\<open>ys\<close> (shape \<open>(16,)\<close>). One-dimensional arrays are lists, two-dimensional
  arrays are lists of rows. The entries are real numbers: the arithmetic below is the
  exact one, not the rounded arithmetic of 32-bit floats.

  What is handed to \<^verbatim>\<open>optax\<close> is a pytree. The notebook hands over two kinds: an array,
  and Python's \<^verbatim>\<open>None\<close> (the pytree without leaves).
\<close>

type_synonym array = "real list"
type_synonym matrix = "real list list"

datatype pytree = PyNone | Array array

section \<open>The numerical functions the model and the data use\<close>

text \<open>
  \<^verbatim>\<open>jnp.dot\<close> of two vectors, \<^verbatim>\<open>jnp.mean\<close> of a vector, \<^verbatim>\<open>jnp.sum(m, axis=-1)\<close> of a matrix
  and the product of a matrix with a Python float. \<^verbatim>\<open>jnp.dot\<close> raises on vectors of
  different lengths and \<^verbatim>\<open>jnp.mean\<close> of an empty array is not a number; the theorems
  on the loss speak of rows as long as the parameter vector and of a dataset with at
  least one row.
\<close>

definition jnp_dot :: "array \<Rightarrow> array \<Rightarrow> real" where
  "jnp_dot a b = sum_list (map2 (*) a b)"

definition jnp_mean :: "array \<Rightarrow> real" where
  "jnp_mean a = sum_list a / real (length a)"

definition jnp_sum_last_axis :: "matrix \<Rightarrow> array" where
  "jnp_sum_last_axis m = map sum_list m"

definition times_scalar :: "matrix \<Rightarrow> real \<Rightarrow> matrix" where
  "times_scalar m c = map (map (\<lambda>v. v * c)) m"

text \<open>
  \<^verbatim>\<open>jax.vmap(f, in_axes=(None, 0))\<close>: the first argument is shared, the second is mapped
  over its leading axis.
\<close>

definition jax_vmap_None_0 :: "('a \<Rightarrow> 'b \<Rightarrow> 'c) \<Rightarrow> 'a \<Rightarrow> 'b list \<Rightarrow> 'c list" where
  "jax_vmap_None_0 f a bs = map (f a) bs"

text \<open>
  Modelled from the spec: \<^verbatim>\<open>optax.l2_loss\<close> is library code that is not part of the
  sources at hand. The notebook calls it the L2 loss; it is taken elementwise as half
  the squared error.
\<close>

definition optax_l2_loss :: "array \<Rightarrow> array \<Rightarrow> array" where
  "optax_l2_loss predictions targets = map2 (\<lambda>p t. 0.5 * (p - t)\<^sup>2) predictions targets"

section \<open>The linear model and its loss\<close>

text \<open>
  \<^verbatim>\<open>
  @functools.partial(jax.vmap, in_axes=(None, 0))
  def network(params, x):
    return jnp.dot(params, x)

  def compute_loss(params, x, y):
    y_pred = network(params, x)
    loss = jnp.mean(optax.l2_loss(y_pred, y))
    return loss
  \<close>
\<close>

definition network :: "array \<Rightarrow> matrix \<Rightarrow> array" where
  "network = jax_vmap_None_0 (\<lambda>params x. jnp_dot params x)"

definition compute_loss :: "array \<Rightarrow> matrix \<Rightarrow> array \<Rightarrow> real" where
  "compute_loss params x y =
     (let y_pred = network params x;
          loss = jnp_mean (optax_l2_loss y_pred y)
      in loss)"

text \<open>
  What \<^verbatim>\<open>jax.grad(f)(p)\<close> stands for: \<open>g\<close> is the gradient of \<open>f\<close> at \<open>p\<close> when it has an
  entry for every entry of \<open>p\<close>, and entry \<open>j\<close> is the derivative of \<open>f\<close> in coordinate \<open>j\<close>.
\<close>

definition is_gradient :: "(array \<Rightarrow> real) \<Rightarrow> array \<Rightarrow> array \<Rightarrow> bool" where
  "is_gradient f p g \<longleftrightarrow>
     length g = length p \<and>
     (\<forall>j < length p. ((\<lambda>t. f (p[j := t])) has_real_derivative g ! j) (at (p ! j)))"

section \<open>The library functions the spec describes\<close>

text \<open>
  An optimizer object (\<^verbatim>\<open>optax.GradientTransformation\<close>): an \<^verbatim>\<open>init\<close> that makes a state
  from the parameters, and an \<^verbatim>\<open>update\<close> that takes gradients and a state and returns
  the updates and the next state. The notebook calls \<^verbatim>\<open>update\<close> with two arguments.
\<close>

record 's GradientTransformation =
  init :: "pytree \<Rightarrow> 's"
  update :: "pytree \<Rightarrow> 's \<Rightarrow> pytree \<times> 's"

text \<open>
  Modelled from the spec: \<^verbatim>\<open>optax.apply_updates\<close> is library code that is not part of
  the sources at hand. The spec: "A separate pure function applies updates additively to
  parameters." On two arrays this is the elementwise sum; on two empty pytrees it is the
  empty pytree. The spec speaks of matching trees and shapes only: JAX raises on the
  others, where the second equation and the truncation of \<open>map2\<close> stand in the model.
\<close>

fun optax_apply_updates :: "pytree \<Rightarrow> pytree \<Rightarrow> pytree" where
  "optax_apply_updates (Array p) (Array u) = Array (map2 (+) p u)"
| "optax_apply_updates _ _ = PyNone"

text \<open>
  Modelled from the spec: \<^verbatim>\<open>optax.linear_schedule\<close> is library code that is not part of
  the sources at hand. The spec: a schedule is a "pure function mapping a step count to a
  scalar value", here "a linear decay" from the initial to the final value over
  \<open>transition_steps\<close> steps, after which the value stays.
\<close>

definition optax_linear_schedule :: "real \<Rightarrow> real \<Rightarrow> nat \<Rightarrow> nat \<Rightarrow> real" where
  "optax_linear_schedule init_value end_value transition_steps step =
     (if transition_steps = 0 then init_value
      else let frac = 1 - real (min step transition_steps) / real transition_steps
           in (init_value - end_value) * frac + end_value)"

text \<open>
  Modelled from the spec: \<^verbatim>\<open>optax.inject_hyperparams\<close> is library code that is not part
  of the sources at hand. The spec: it "wraps an optimizer constructor so specified
  keyword arguments become inspectable, schedulable fields of the resulting state". The
  state holds the number of updates so far, the dictionary \<^verbatim>\<open>hyperparams\<close> and the state
  of the wrapped transformation. The model takes one keyword argument bound to a
  schedule, which is how the notebook calls it. The spec does not say at which count
  \<^verbatim>\<open>update\<close> evaluates the schedule: the model evaluates it at the count the state
  holds, builds the wrapped transformation with that value, and then increments the
  count.
\<close>

record 's InjectHyperparamsState =
  count :: nat
  hyperparams :: "string \<rightharpoonup> real"
  inner_state :: 's

definition optax_inject_hyperparams ::
  "(real \<Rightarrow> 's GradientTransformation) \<Rightarrow> string \<Rightarrow> (nat \<Rightarrow> real) \<Rightarrow>
     ('s InjectHyperparamsState) GradientTransformation" where
  "optax_inject_hyperparams inner_factory name schedule =
     \<lparr>init = (\<lambda>tree.
        let hparam = schedule 0
        in \<lparr>count = 0, hyperparams = [name \<mapsto> hparam],
            inner_state = init (inner_factory hparam) tree\<rparr>),
      update = (\<lambda>tree state.
        let hparam = schedule (count state);
            (tree', inner') = update (inner_factory hparam) tree (inner_state state)
        in (tree', \<lparr>count = count state + 1, hyperparams = [name \<mapsto> hparam],
                    inner_state = inner'\<rparr>))\<rparr>"

section \<open>The library calls the notebook only passes on\<close>

text \<open>
  The random number generator, automatic differentiation, the comparison
  \<^verbatim>\<open>jnp.allclose\<close>, Adam and the stages of the chained transformation are neither in the
  sources at hand nor described by the spec. The notebook is modelled over any
  implementation of them: a record of functions of which only the types are known.
  Every call returns a value. \<open>'k\<close> is the type of random keys, \<open>'s\<close> the type of the
  optimizer states of the library.
\<close>

record ('k, 's) library =
  jax_random_PRNGKey :: "int \<Rightarrow> 'k"
  jax_random_normal :: "'k \<Rightarrow> nat \<times> nat \<Rightarrow> matrix"
  jax_grad :: "(array \<Rightarrow> matrix \<Rightarrow> array \<Rightarrow> real) \<Rightarrow> pytree \<Rightarrow> matrix \<Rightarrow> array \<Rightarrow> pytree"
  jnp_allclose :: "pytree \<Rightarrow> real \<Rightarrow> bool"
  optax_adam :: "real \<Rightarrow> 's GradientTransformation"
  optax_exponential_decay :: "real \<Rightarrow> nat \<Rightarrow> real \<Rightarrow> (nat \<Rightarrow> real)"
  optax_clip_by_global_norm :: "real \<Rightarrow> 's GradientTransformation"
  optax_scale_by_adam :: "'s GradientTransformation"
  optax_scale_by_schedule :: "(nat \<Rightarrow> real) \<Rightarrow> 's GradientTransformation"
  optax_scale :: "real \<Rightarrow> 's GradientTransformation"
  optax_chain :: "'s GradientTransformation list \<Rightarrow> 's GradientTransformation"

section \<open>Python statements that can raise\<close>

text \<open>
  \<^verbatim>\<open>assert cond, msg\<close> raises \<^verbatim>\<open>AssertionError(msg)\<close> when \<open>cond\<close> is false; \<^verbatim>\<open>d[k]\<close> raises
  \<^verbatim>\<open>KeyError(k)\<close> when the dictionary has no key \<open>k\<close>. An exception that nothing catches
  ends the run: \<open>and_then\<close> runs what follows only after a normal return.
\<close>

datatype error = AssertionError string | KeyError string

definition and_then :: "error + 'a \<Rightarrow> ('a \<Rightarrow> error + 'b) \<Rightarrow> error + 'b" where
  "and_then r f = (case r of Inl e \<Rightarrow> Inl e | Inr v \<Rightarrow> f v)"

definition py_assert :: "bool \<Rightarrow> string \<Rightarrow> 'a \<Rightarrow> error + 'a" where
  "py_assert cond msg env = (if cond then Inr env else Inl (AssertionError msg))"

definition getitem :: "(string \<rightharpoonup> 'v) \<Rightarrow> string \<Rightarrow> error + 'v" where
  "getitem d k = (case d k of None \<Rightarrow> Inl (KeyError k) | Some v \<Rightarrow> Inr v)"

section \<open>The notebook, cell by cell\<close>

text \<open>
  The variables that hold arrays and optimizer state are the fields of a record, so that
  what every cell does to them is explicit: \<^verbatim>\<open>xs\<close> and \<^verbatim>\<open>ys\<close> exist from the data cell on,
  \<^verbatim>\<open>params\<close> and \<^verbatim>\<open>opt_state\<close> from the first optimizer cell on. The variables bound once
  to a literal or to a library object built from literals (\<^verbatim>\<open>key\<close>, \<^verbatim>\<open>target_params\<close>,
  \<^verbatim>\<open>start_learning_rate\<close>, \<^verbatim>\<open>optimizer\<close>, \<^verbatim>\<open>scheduler\<close>, \<^verbatim>\<open>gradient_transform\<close>,
  \<^verbatim>\<open>decaying_global_norm_tx\<close>) are constants; \<^verbatim>\<open>grads\<close>, \<^verbatim>\<open>updates\<close> and \<^verbatim>\<open>_\<close> are
  bound anew in every pass of a loop body. The code cells run once, in the order of the
  file.
\<close>

record data =
  xs :: matrix
  ys :: array

record 'o env = data +
  params :: pytree
  opt_state :: 'o

subsection \<open>Data\<close>

text \<open>
  \<^verbatim>\<open>
  key = jax.random.PRNGKey(42)
  target_params = 0.5

  # Generate some data.
  xs = jax.random.normal(key, (16, 2))
  ys = jnp.sum(xs * target_params, axis=-1)
  \<close>
\<close>

definition key :: "('k, 's) library \<Rightarrow> 'k" where
  "key L = jax_random_PRNGKey L 42"

definition target_params :: real where
  "target_params = 0.5"

definition cell_data :: "('k, 's) library \<Rightarrow> data" where
  "cell_data L =
     (let xs' = jax_random_normal L (key L) (16, 2);
          ys' = jnp_sum_last_axis (times_scalar xs' target_params)
      in \<lparr>xs = xs', ys = ys'\<rparr>)"

subsection \<open>Basic usage: Adam\<close>

text \<open>
  \<^verbatim>\<open>
  start_learning_rate = 1e-1
  optimizer = optax.adam(start_learning_rate)

  # Initialize parameters of the model + optimizer.
  params = jnp.array([0.0, 0.0])
  opt_state = optimizer.init(params)
  \<close>
\<close>

definition start_learning_rate :: real where
  "start_learning_rate = 0.1"

definition optimizer :: "('k, 's) library \<Rightarrow> 's GradientTransformation" where
  "optimizer L = optax_adam L start_learning_rate"

definition cell_optimizer_init :: "('k, 's) library \<Rightarrow> data \<Rightarrow> 's env" where
  "cell_optimizer_init L d =
     (let params' = Array [0.0, 0.0];
          opt_state' = init (optimizer L) params'
      in data.extend d (env.fields params' opt_state'))"

text \<open>
  \<^verbatim>\<open>
  # A simple update loop.
  for _ in range(1000):
    grads = jax.grad(compute_loss)(params, xs, ys)
    updates, opt_state = optimizer.update(grads, opt_state)
    params = optax.apply_updates(params, updates)

  assert jnp.allclose(params, target_params), 'Optimization should retrive the target params used to generate the data.'
  \<close>
\<close>

definition optimizer_step :: "('k, 's) library \<Rightarrow> 's env \<Rightarrow> 's env" where
  "optimizer_step L e =
     (let grads = jax_grad L compute_loss (params e) (xs e) (ys e);
          (updates, opt_state') = update (optimizer L) grads (opt_state e);
          params' = optax_apply_updates (params e) updates
      in e\<lparr>params := params', opt_state := opt_state'\<rparr>)"

definition optimizer_loop :: "('k, 's) library \<Rightarrow> 's env \<Rightarrow> 's env" where
  "optimizer_loop L e = (optimizer_step L ^^ 1000) e"

definition cell_optimizer_loop :: "('k, 's) library \<Rightarrow> 's env \<Rightarrow> error + 's env" where
  "cell_optimizer_loop L e =
     (let e' = optimizer_loop L e
      in py_assert (jnp_allclose L (params e') target_params)
           ''Optimization should retrive the target params used to generate the data.'' e')"

subsection \<open>Custom optimizers: a chain of four transformations\<close>

text \<open>
  \<^verbatim>\<open>
  # Exponential decay of the learning rate.
  scheduler = optax.exponential_decay(
      init_value=start_learning_rate,
      transition_steps=1000,
      decay_rate=0.99)

  # Combining gradient transforms using optax.chain.
  gradient_transform = optax.chain(
      optax.clip_by_global_norm(1.0),  # Clip by the gradient by the global norm.
      optax.scale_by_adam(),  # Use the updates from adam.
      optax.scale_by_schedule(scheduler),  # Use the learning rate from the scheduler.
      # Scale updates by -1 since optax.apply_updates is additive and we want to descend on the loss.
      optax.scale(-1.0)
  )
  \<close>
\<close>

definition scheduler :: "('k, 's) library \<Rightarrow> nat \<Rightarrow> real" where
  "scheduler L = optax_exponential_decay L start_learning_rate 1000 0.99"

definition gradient_transform :: "('k, 's) library \<Rightarrow> 's GradientTransformation" where
  "gradient_transform L =
     optax_chain L
       [optax_clip_by_global_norm L 1.0,
        optax_scale_by_adam L,
        optax_scale_by_schedule L (scheduler L),
        optax_scale L (- 1.0)]"

text \<open>
  \<^verbatim>\<open>
  # Initialize parameters of the model + optimizer.
  params = jnp.array([0.0, 0.0])  # Recall target_params=0.5.
  opt_state = gradient_transform.init(params)

  # A simple update loop.
  for _ in range(1000):
    grads = jax.grad(compute_loss)(params, xs, ys)
    updates, opt_state = gradient_transform.update(grads, opt_state)
    params = optax.apply_updates(params, updates)

  assert jnp.allclose(params, target_params), 'Optimization should retrive the target params used to generate the data.'
  \<close>
\<close>

definition gradient_transform_init :: "('k, 's) library \<Rightarrow> 's env \<Rightarrow> 's env" where
  "gradient_transform_init L e =
     (let params' = Array [0.0, 0.0];
          opt_state' = init (gradient_transform L) params'
      in e\<lparr>params := params', opt_state := opt_state'\<rparr>)"

definition gradient_transform_step :: "('k, 's) library \<Rightarrow> 's env \<Rightarrow> 's env" where
  "gradient_transform_step L e =
     (let grads = jax_grad L compute_loss (params e) (xs e) (ys e);
          (updates, opt_state') = update (gradient_transform L) grads (opt_state e);
          params' = optax_apply_updates (params e) updates
      in e\<lparr>params := params', opt_state := opt_state'\<rparr>)"

definition gradient_transform_loop :: "('k, 's) library \<Rightarrow> 's env \<Rightarrow> 's env" where
  "gradient_transform_loop L e =
     (gradient_transform_step L ^^ 1000) (gradient_transform_init L e)"

definition cell_gradient_transform_loop ::
  "('k, 's) library \<Rightarrow> 's env \<Rightarrow> error + 's env" where
  "cell_gradient_transform_loop L e =
     (let e' = gradient_transform_loop L e
      in py_assert (jnp_allclose L (params e') target_params)
           ''Optimization should retrive the target params used to generate the data.'' e')"

subsection \<open>Advanced usage: a hyperparameter on a schedule\<close>

text \<open>
  \<^verbatim>\<open>
  decaying_global_norm_tx = optax.inject_hyperparams(optax.clip_by_global_norm)(
      max_norm=optax.linear_schedule(1.0, 0.0, transition_steps=99))

  opt_state = decaying_global_norm_tx.init(None)
  assert opt_state.hyperparams['max_norm'] == 1.0, 'Max norm should start at 1.0'

  for _ in range(100):
    _, opt_state = decaying_global_norm_tx.update(None, opt_state)

  assert opt_state.hyperparams['max_norm'] == 0.0, 'Max norm should end at 0.0'
  \<close>
  Here \<^verbatim>\<open>opt_state\<close> is bound to a state of another type than before, so
  \<open>scheduled_init\<close> builds the record anew, with the other three variables as they are.

  The statements after the first are written as functions of the transformation \<open>tx\<close>
  that \<^verbatim>\<open>decaying_global_norm_tx\<close> is bound to, whose states have the field
  \<^verbatim>\<open>hyperparams\<close>; the notebook runs them on the transformation the first statement
  builds.
\<close>

definition decaying_global_norm_tx ::
  "('k, 's) library \<Rightarrow> ('s InjectHyperparamsState) GradientTransformation" where
  "decaying_global_norm_tx L =
     optax_inject_hyperparams (optax_clip_by_global_norm L) ''max_norm''
       (optax_linear_schedule 1.0 0.0 99)"

definition scheduled_init :: "'t GradientTransformation \<Rightarrow> 'o env \<Rightarrow> 't env" where
  "scheduled_init tx e =
     (let opt_state' = init tx PyNone
      in \<lparr>xs = xs e, ys = ys e, params = params e, opt_state = opt_state'\<rparr>)"

definition scheduled_step :: "'t GradientTransformation \<Rightarrow> 't env \<Rightarrow> 't env" where
  "scheduled_step tx e =
     (let (_, opt_state') = update tx PyNone (opt_state e)
      in e\<lparr>opt_state := opt_state'\<rparr>)"

definition scheduled_loop :: "'t GradientTransformation \<Rightarrow> 't env \<Rightarrow> 't env" where
  "scheduled_loop tx e = (scheduled_step tx ^^ 100) e"

definition cell_scheduled ::
  "('t InjectHyperparamsState) GradientTransformation \<Rightarrow> 'o env \<Rightarrow>
     error + ('t InjectHyperparamsState) env" where
  "cell_scheduled tx e =
     (let e0 = scheduled_init tx e
      in and_then (getitem (hyperparams (opt_state e0)) ''max_norm'') (\<lambda>max_norm.
         and_then (py_assert (max_norm = 1.0) ''Max norm should start at 1.0'' e0) (\<lambda>e1.
         let e2 = scheduled_loop tx e1
         in and_then (getitem (hyperparams (opt_state e2)) ''max_norm'') (\<lambda>max_norm.
            py_assert (max_norm = 0.0) ''Max norm should end at 0.0'' e2))))"

definition decaying_init ::
  "('k, 's) library \<Rightarrow> 'o env \<Rightarrow> ('s InjectHyperparamsState) env" where
  "decaying_init L e = scheduled_init (decaying_global_norm_tx L) e"

definition decaying_step ::
  "('k, 's) library \<Rightarrow> ('s InjectHyperparamsState) env \<Rightarrow> ('s InjectHyperparamsState) env" where
  "decaying_step L e = scheduled_step (decaying_global_norm_tx L) e"

definition decaying_loop ::
  "('k, 's) library \<Rightarrow> ('s InjectHyperparamsState) env \<Rightarrow> ('s InjectHyperparamsState) env" where
  "decaying_loop L e = (decaying_step L ^^ 100) e"

definition cell_decaying ::
  "('k, 's) library \<Rightarrow> 'o env \<Rightarrow> error + ('s InjectHyperparamsState) env" where
  "cell_decaying L e = cell_scheduled (decaying_global_norm_tx L) e"

subsection \<open>The whole notebook\<close>

text \<open>
  The code cells in the order of the file. \<open>notebook_with\<close> runs the last cell on a
  transformation \<open>tx\<close>; the notebook is the run on the transformation it builds itself.
\<close>

definition notebook_with ::
  "('k, 's) library \<Rightarrow> ('t InjectHyperparamsState) GradientTransformation \<Rightarrow>
     error + ('t InjectHyperparamsState) env" where
  "notebook_with L tx =
     and_then (cell_optimizer_loop L (cell_optimizer_init L (cell_data L))) (\<lambda>e.
     and_then (cell_gradient_transform_loop L e) (\<lambda>e.
     cell_scheduled tx e))"

definition notebook :: "('k, 's) library \<Rightarrow> error + ('s InjectHyperparamsState) env" where
  "notebook L = notebook_with L (decaying_global_norm_tx L)"

subsection \<open>One training experiment, whatever the optimizer\<close>

text \<open>
  The experiment both training cells are meant to be: start from \<open>[0.0, 0.0]\<close> and the
  state \<open>tx\<close> makes of it, then a thousand times take the gradient of the loss on the
  dataset, ask \<open>tx\<close> for the updates and add them to the parameters. The result is the
  final pair of parameters and optimizer state.
\<close>

definition training_step ::
  "('k, 's) library \<Rightarrow> 's GradientTransformation \<Rightarrow> matrix \<Rightarrow> array \<Rightarrow>
     pytree \<times> 's \<Rightarrow> pytree \<times> 's" where
  "training_step L tx inputs targets = (\<lambda>(p, s).
     let g = jax_grad L compute_loss p inputs targets;
         (u, s') = update tx g s
     in (optax_apply_updates p u, s'))"

definition training_run ::
  "('k, 's) library \<Rightarrow> 's GradientTransformation \<Rightarrow> matrix \<Rightarrow> array \<Rightarrow> pytree \<times> 's" where
  "training_run L tx inputs targets =
     (let p0 = Array [0.0, 0.0]
      in (training_step L tx inputs targets ^^ 1000) (p0, init tx p0))"

text \<open>
  A statement keeps the data when the variables \<^verbatim>\<open>xs\<close> and \<^verbatim>\<open>ys\<close> hold after it what they
  held before it.
\<close>

definition keeps_data :: "('a data_scheme \<Rightarrow> 'b data_scheme) \<Rightarrow> bool" where
  "keeps_data f \<longleftrightarrow> (\<forall>e. xs (f e) = xs e \<and> ys (f e) = ys e)"

subsection \<open>A library to run the notebook on\<close>

text \<open>
  The smallest library there is: every transformation hands its input on, the gradient
  of anything is the point itself, all random numbers are \<open>1\<close>, and \<^verbatim>\<open>jnp.allclose\<close>
  answers \<open>close\<close> whatever it is asked. It serves to run the notebook to either end.
\<close>

definition identity_transformation :: "unit GradientTransformation" where
  "identity_transformation = \<lparr>init = (\<lambda>tree. ()), update = (\<lambda>tree state. (tree, state))\<rparr>"

definition stub_library :: "bool \<Rightarrow> (unit, unit) library" where
  "stub_library close =
     \<lparr>jax_random_PRNGKey = (\<lambda>seed. ()),
      jax_random_normal = (\<lambda>k (rows, cols). replicate rows (replicate cols 1)),
      jax_grad = (\<lambda>f p inputs targets. p),
      jnp_allclose = (\<lambda>a b. close),
      optax_adam = (\<lambda>learning_rate. identity_transformation),
      optax_exponential_decay = (\<lambda>init_value transition_steps decay_rate step. init_value),
      optax_clip_by_global_norm = (\<lambda>max_norm. identity_transformation),
      optax_scale_by_adam = identity_transformation,
      optax_scale_by_schedule = (\<lambda>schedule. identity_transformation),
      optax_scale = (\<lambda>factor. identity_transformation),
      optax_chain = (\<lambda>stages. identity_transformation)\<rparr>"

text \<open>
  A transformation whose states all hold the same dictionary \<open>d\<close> of hyperparameters.
\<close>

definition constant_hyperparams ::
  "(string \<rightharpoonup> real) \<Rightarrow> (unit InjectHyperparamsState) GradientTransformation" where
  "constant_hyperparams d =
     \<lparr>init = (\<lambda>tree. \<lparr>count = 0, hyperparams = d, inner_state = ()\<rparr>),
      update = (\<lambda>tree state. (tree, state))\<rparr>"

section \<open>The target parameters minimise the loss\<close>

lemma jnp_dot_pair: "length r = 2 \<Longrightarrow> jnp_dot [a, b] r = a * r ! 0 + b * r ! 1"
  by (cases r; cases "tl r") (auto simp: jnp_dot_def)

lemma sum_scaled_pair:
  "length r = 2 \<Longrightarrow> sum_list (map (\<lambda>v. v * c) r) = r ! 0 * c + r ! 1 * c"
  by (cases r; cases "tl r") auto

lemma sum_l2_loss_network:
  assumes "\<forall>r \<in> set m. length r = 2"
  shows "sum_list (optax_l2_loss (network [a, b] m) (jnp_sum_last_axis (times_scalar m c)))
       = (\<Sum>r\<leftarrow>m. 0.5 * ((a - c) * r ! 0 + (b - c) * r ! 1)\<^sup>2)"
  using assms
  by (induction m)
     (auto simp: optax_l2_loss_def network_def jax_vmap_None_0_def jnp_sum_last_axis_def
                 times_scalar_def jnp_dot_pair sum_scaled_pair algebra_simps)

lemma length_l2_loss_network:
  "length (optax_l2_loss (network p m) (jnp_sum_last_axis (times_scalar m c))) = length m"
  by (simp add: optax_l2_loss_def network_def jax_vmap_None_0_def jnp_sum_last_axis_def
                times_scalar_def)

lemma compute_loss_closed_form:
  assumes "\<forall>r \<in> set m. length r = 2"
  shows "compute_loss [a, b] m (jnp_sum_last_axis (times_scalar m c))
       = (\<Sum>r\<leftarrow>m. 0.5 * ((a - c) * r ! 0 + (b - c) * r ! 1)\<^sup>2) / real (length m)"
  using sum_l2_loss_network[OF assms]
  by (simp add: compute_loss_def jnp_mean_def length_l2_loss_network)

lemma sum_list_l2_loss_nonneg: "0 \<le> sum_list (optax_l2_loss p t)"
  by (rule sum_list_nonneg) (auto simp: optax_l2_loss_def set_zip)

lemma compute_loss_nonneg: "0 \<le> compute_loss p m t"
  by (simp add: compute_loss_def jnp_mean_def Let_def sum_list_l2_loss_nonneg)

lemma sum_list_scaled_square:
  "(\<Sum>r\<leftarrow>m. 0.5 * (d * f r)\<^sup>2) = d\<^sup>2 * (\<Sum>r\<leftarrow>m. 0.5 * (f r)\<^sup>2)"
  for d :: real
  by (induction m) (auto simp: algebra_simps power_mult_distrib)

lemma deriv_square_at_centre:
  "((\<lambda>t. (t - c)\<^sup>2 * k) has_real_derivative 0) (at c)"
  for c :: real
  by (auto intro!: derivative_eq_intros)

lemma loss_first_coordinate:
  assumes "\<forall>r \<in> set m. length r = 2"
  shows "compute_loss [t, c] m (jnp_sum_last_axis (times_scalar m c))
       = (t - c)\<^sup>2 * ((\<Sum>r\<leftarrow>m. 0.5 * (r ! 0)\<^sup>2) / real (length m))"
  using sum_list_scaled_square[of "t - c" "\<lambda>r. r ! 0" m]
  by (simp add: compute_loss_closed_form[OF assms])

lemma loss_second_coordinate:
  assumes "\<forall>r \<in> set m. length r = 2"
  shows "compute_loss [c, t] m (jnp_sum_last_axis (times_scalar m c))
       = (t - c)\<^sup>2 * ((\<Sum>r\<leftarrow>m. 0.5 * (r ! 1)\<^sup>2) / real (length m))"
  using sum_list_scaled_square[of "t - c" "\<lambda>r. r ! 1" m]
  by (simp add: compute_loss_closed_form[OF assms])

lemma gradient_at_target:
  assumes "\<forall>r \<in> set m. length r = 2"
  shows "is_gradient (\<lambda>p. compute_loss p m (jnp_sum_last_axis (times_scalar m c))) [c, c] [0, 0]"
proof -
  have "((\<lambda>t. compute_loss ([c, c][j := t]) m (jnp_sum_last_axis (times_scalar m c)))
          has_real_derivative [0, 0] ! j) (at ([c, c] ! j))" if "j < 2" for j
  proof -
    from that consider "j = 0" | "j = 1" by linarith
    then show ?thesis
    proof cases
      case 1
      have "((\<lambda>t. compute_loss [t, c] m (jnp_sum_last_axis (times_scalar m c)))
              has_real_derivative 0) (at c)"
        unfolding loss_first_coordinate[OF assms] by (rule deriv_square_at_centre)
      with 1 show ?thesis by simp
    next
      case 2
      have "((\<lambda>t. compute_loss [c, t] m (jnp_sum_last_axis (times_scalar m c)))
              has_real_derivative 0) (at c)"
        unfolding loss_second_coordinate[OF assms] by (rule deriv_square_at_centre)
      with 2 show ?thesis by simp
    qed
  qed
  then show ?thesis by (simp add: is_gradient_def)
qed

lemma ys_cell_data:
  "ys (cell_data L) = jnp_sum_last_axis (times_scalar (xs (cell_data L)) target_params)"
  by (simp add: cell_data_def Let_def)

text \<open>
  C8. Take any inputs \<open>m\<close> of at least one row, each row of two entries, and the targets
  the data cell computes from them, \<^verbatim>\<open>jnp.sum(m * target_params, axis=-1)\<close>. Then the loss
  at \<open>[0.5, 0.5]\<close> is \<open>0\<close>, its gradient there is the zero vector, and the loss is at
  least \<open>0\<close> at every parameter vector of two entries. So \<open>[0.5, 0.5]\<close> is a global
  minimum of the loss, whatever the random inputs are.
\<close>

theorem target_is_global_minimum:
  assumes "m \<noteq> []" and "\<forall>r \<in> set m. length r = 2"
  shows "compute_loss [0.5, 0.5] m (jnp_sum_last_axis (times_scalar m target_params)) = 0
       \<and> is_gradient (\<lambda>p. compute_loss p m (jnp_sum_last_axis (times_scalar m target_params)))
            [0.5, 0.5] [0, 0]
       \<and> (\<forall>p. length p = 2 \<longrightarrow>
              0 \<le> compute_loss p m (jnp_sum_last_axis (times_scalar m target_params)))"
  using gradient_at_target[OF assms(2), of "0.5"]
        compute_loss_closed_form[OF assms(2), of "0.5" "0.5" "0.5"]
  by (simp add: target_params_def compute_loss_nonneg)

theorem target_is_global_minimum_witness:
  "compute_loss [0.5, 0.5] [[1, 2], [3, - 1]]
     (jnp_sum_last_axis (times_scalar [[1, 2], [3, - 1]] target_params)) = 0
   \<and> is_gradient
        (\<lambda>p. compute_loss p [[1, 2], [3, - 1]]
                (jnp_sum_last_axis (times_scalar [[1, 2], [3, - 1]] target_params)))
        [0.5, 0.5] [0, 0]
   \<and> 0 \<le> compute_loss [0, 0] [[1, 2], [3, - 1]]
            (jnp_sum_last_axis (times_scalar [[1, 2], [3, - 1]] target_params))"
  using target_is_global_minimum[of "[[1, 2], [3, - 1]]"] by simp

section \<open>The scheduled hyperparameter\<close>

lemma opt_state_decaying_step:
  "opt_state (decaying_step L e) =
     \<lparr>count = count (opt_state e) + 1,
      hyperparams = [''max_norm'' \<mapsto> optax_linear_schedule 1.0 0.0 99 (count (opt_state e))],
      inner_state = snd (update (optax_clip_by_global_norm L
                           (optax_linear_schedule 1.0 0.0 99 (count (opt_state e))))
                         PyNone (inner_state (opt_state e)))\<rparr>"
  by (simp add: decaying_step_def scheduled_step_def decaying_global_norm_tx_def
                optax_inject_hyperparams_def Let_def split: prod.splits)

lemma count_decaying_steps:
  "count (opt_state ((decaying_step L ^^ k) e)) = count (opt_state e) + k"
  by (induction k) (simp_all add: opt_state_decaying_step)

text \<open>
  After \<open>k + 1\<close> updates the entry is the value of the schedule at the count the state
  held before the last of them.
\<close>

lemma hyperparams_decaying_steps:
  "hyperparams (opt_state ((decaying_step L ^^ Suc k) e)) =
     [''max_norm'' \<mapsto> optax_linear_schedule 1.0 0.0 99 (count (opt_state e) + k)]"
  by (simp add: opt_state_decaying_step count_decaying_steps)

lemma opt_state_decaying_init:
  "count (opt_state (decaying_init L e)) = 0"
  "hyperparams (opt_state (decaying_init L e)) =
     [''max_norm'' \<mapsto> optax_linear_schedule 1.0 0.0 99 0]"
  by (simp_all add: decaying_init_def scheduled_init_def decaying_global_norm_tx_def
                    optax_inject_hyperparams_def Let_def)

lemma linear_schedule_start: "optax_linear_schedule 1 0 99 0 = 1"
  by (simp add: optax_linear_schedule_def)

lemma linear_schedule_end: "99 \<le> k \<Longrightarrow> optax_linear_schedule 1 0 99 k = 0"
  by (simp add: optax_linear_schedule_def min_def)

lemma max_norm_after_init:
  "hyperparams (opt_state (decaying_init L e)) ''max_norm'' = Some 1"
  by (simp add: opt_state_decaying_init linear_schedule_start)

lemma max_norm_after_loop:
  "hyperparams (opt_state (decaying_loop L (decaying_init L e))) ''max_norm'' = Some 0"
proof -
  have "(100::nat) = Suc 99" by simp
  then have "hyperparams (opt_state (decaying_loop L (decaying_init L e))) =
      [''max_norm'' \<mapsto> optax_linear_schedule 1.0 0.0 99 99]"
    unfolding decaying_loop_def
    by (simp only: hyperparams_decaying_steps opt_state_decaying_init) simp
  then show ?thesis
    by (simp add: linear_schedule_end)
qed

text \<open>
  C3. Whatever the library and whatever the variables hold when the last cell starts:
  right after \<^verbatim>\<open>opt_state = decaying_global_norm_tx.init(None)\<close> the entry
  \<^verbatim>\<open>opt_state.hyperparams['max_norm']\<close> is \<open>1.0\<close>, and after the hundred passes of
  \<^verbatim>\<open>_, opt_state = decaying_global_norm_tx.update(None, opt_state)\<close> it is \<open>0.0\<close>.
\<close>

theorem max_norm_starts_at_one_and_ends_at_zero:
  "hyperparams (opt_state (decaying_init L e)) ''max_norm'' = Some 1.0
   \<and> hyperparams (opt_state (decaying_loop L (decaying_init L e))) ''max_norm'' = Some 0.0"
  by (simp add: max_norm_after_init max_norm_after_loop)

section \<open>What the cells leave alone\<close>

lemma funpow_frame:
  assumes "\<And>e. f (step e) = f e"
  shows "f ((step ^^ n) e) = f e"
  by (induction n) (simp_all add: assms)

lemma optimizer_step_frame [simp]:
  "xs (optimizer_step L e) = xs e" "ys (optimizer_step L e) = ys e"
  by (simp_all add: optimizer_step_def Let_def split: prod.splits)

lemma gradient_transform_step_frame [simp]:
  "xs (gradient_transform_step L e) = xs e" "ys (gradient_transform_step L e) = ys e"
  by (simp_all add: gradient_transform_step_def Let_def split: prod.splits)

lemma gradient_transform_init_frame [simp]:
  "xs (gradient_transform_init L e) = xs e" "ys (gradient_transform_init L e) = ys e"
  by (simp_all add: gradient_transform_init_def Let_def)

lemma decaying_step_frame [simp]:
  "xs (decaying_step L e) = xs e" "ys (decaying_step L e) = ys e"
  "params (decaying_step L e) = params e"
  by (simp_all add: decaying_step_def scheduled_step_def Let_def split: prod.splits)

lemma decaying_init_frame [simp]:
  "xs (decaying_init L e) = xs e" "ys (decaying_init L e) = ys e"
  "params (decaying_init L e) = params e"
  by (simp_all add: decaying_init_def scheduled_init_def Let_def)

lemma cell_optimizer_init_frame [simp]:
  "xs (cell_optimizer_init L d) = xs d" "ys (cell_optimizer_init L d) = ys d"
  by (simp_all add: cell_optimizer_init_def Let_def data.defs env.defs)

lemma optimizer_loop_frame [simp]:
  "xs (optimizer_loop L e) = xs e" "ys (optimizer_loop L e) = ys e"
  unfolding optimizer_loop_def by (rule funpow_frame, simp)+

lemma gradient_transform_loop_frame [simp]:
  "xs (gradient_transform_loop L e) = xs e" "ys (gradient_transform_loop L e) = ys e"
proof -
  show "xs (gradient_transform_loop L e) = xs e"
    unfolding gradient_transform_loop_def
    by (subst funpow_frame[where f = xs]) simp_all
  show "ys (gradient_transform_loop L e) = ys e"
    unfolding gradient_transform_loop_def
    by (subst funpow_frame[where f = ys]) simp_all
qed

lemma decaying_loop_frame [simp]:
  "xs (decaying_loop L e) = xs e" "ys (decaying_loop L e) = ys e"
  "params (decaying_loop L e) = params e"
  unfolding decaying_loop_def by (rule funpow_frame, simp)+

section \<open>Both training cells run the same experiment\<close>

lemma optimizer_step_run:
  "(params (optimizer_step L e), opt_state (optimizer_step L e)) =
     training_step L (optimizer L) (xs e) (ys e) (params e, opt_state e)"
  by (simp add: optimizer_step_def training_step_def Let_def split: prod.splits)

lemma gradient_transform_step_run:
  "(params (gradient_transform_step L e), opt_state (gradient_transform_step L e)) =
     training_step L (gradient_transform L) (xs e) (ys e) (params e, opt_state e)"
  by (simp add: gradient_transform_step_def training_step_def Let_def split: prod.splits)

lemma funpow_run:
  fixes f :: "'o env \<Rightarrow> 'o env"
  assumes step: "\<And>e. (params (f e), opt_state (f e)) = g (xs e) (ys e) (params e, opt_state e)"
    and frame: "\<And>e. xs (f e) = xs e" "\<And>e. ys (f e) = ys e"
  shows "(params ((f ^^ n) e), opt_state ((f ^^ n) e)) =
         (g (xs e) (ys e) ^^ n) (params e, opt_state e)"
proof (induction n)
  case 0
  show ?case by simp
next
  case (Suc n)
  have "xs ((f ^^ n) e) = xs e" "ys ((f ^^ n) e) = ys e"
    by (rule funpow_frame, rule frame)+
  with Suc.IH step[of "(f ^^ n) e"] show ?case by simp
qed

lemma optimizer_steps_run:
  "(params ((optimizer_step L ^^ n) e), opt_state ((optimizer_step L ^^ n) e)) =
     (training_step L (optimizer L) (xs e) (ys e) ^^ n) (params e, opt_state e)"
  by (rule funpow_run) (simp_all add: optimizer_step_run)

lemma gradient_transform_steps_run:
  "(params ((gradient_transform_step L ^^ n) e),
    opt_state ((gradient_transform_step L ^^ n) e)) =
     (training_step L (gradient_transform L) (xs e) (ys e) ^^ n) (params e, opt_state e)"
  by (rule funpow_run) (simp_all add: gradient_transform_step_run)

lemma params_cell_optimizer_init: "params (cell_optimizer_init L d) = Array [0.0, 0.0]"
  by (simp add: cell_optimizer_init_def Let_def data.defs env.defs)

lemma params_gradient_transform_init:
  "params (gradient_transform_init L e) = Array [0.0, 0.0]"
  by (simp add: gradient_transform_init_def Let_def)

lemma optimizer_experiment:
  "(params (optimizer_loop L (cell_optimizer_init L d)),
    opt_state (optimizer_loop L (cell_optimizer_init L d))) =
   training_run L (optimizer L) (xs d) (ys d)"
  unfolding optimizer_loop_def optimizer_steps_run
  by (simp add: training_run_def cell_optimizer_init_def Let_def data.defs env.defs)

lemma gradient_transform_experiment:
  "(params (gradient_transform_loop L e), opt_state (gradient_transform_loop L e)) =
   training_run L (gradient_transform L) (xs e) (ys e)"
  unfolding gradient_transform_loop_def gradient_transform_steps_run
  by (simp add: training_run_def gradient_transform_init_def Let_def)

text \<open>
  C10. The data cell is the one place that binds \<^verbatim>\<open>xs\<close> and \<^verbatim>\<open>ys\<close>: every later statement
  that binds a variable keeps the data, in each pass of each loop. So with \<open>d\<close> what the
  data cell binds, \<open>e1\<close> the variables after the first training loop, \<open>e2\<close> after the
  second and \<open>e4\<close> at the end of the notebook, \<^verbatim>\<open>xs\<close> and \<^verbatim>\<open>ys\<close> hold in \<open>e1\<close>, \<open>e2\<close> and
  \<open>e4\<close> what they hold in \<open>d\<close>. Both loops start from \<^verbatim>\<open>params = [0.0, 0.0]\<close>, and each
  ends with the parameters and the optimizer state of the one experiment
  \<open>training_run\<close> on the dataset \<open>d\<close>, the first with \<^verbatim>\<open>optimizer\<close>, the second with
  \<^verbatim>\<open>gradient_transform\<close>: the two experiments differ in the optimizer only.
\<close>

theorem dataset_frozen_and_shared:
  "keeps_data (cell_optimizer_init L) \<and> keeps_data (optimizer_step L)
   \<and> keeps_data (gradient_transform_init L) \<and> keeps_data (gradient_transform_step L)
   \<and> keeps_data (decaying_init L) \<and> keeps_data (decaying_step L)
   \<and> (let d = cell_data L;
           e1 = optimizer_loop L (cell_optimizer_init L d);
           e2 = gradient_transform_loop L e1;
           e4 = decaying_loop L (decaying_init L e2)
       in xs e1 = xs d \<and> ys e1 = ys d
        \<and> xs e2 = xs d \<and> ys e2 = ys d
        \<and> xs e4 = xs d \<and> ys e4 = ys d
        \<and> params (cell_optimizer_init L d) = Array [0.0, 0.0]
        \<and> params (gradient_transform_init L e1) = Array [0.0, 0.0]
        \<and> (params e1, opt_state e1) = training_run L (optimizer L) (xs d) (ys d)
        \<and> (params e2, opt_state e2) = training_run L (gradient_transform L) (xs d) (ys d))"
  using optimizer_experiment[of L "cell_data L"]
        gradient_transform_experiment[of L "optimizer_loop L (cell_optimizer_init L (cell_data L))"]
  by (simp add: keeps_data_def Let_def params_cell_optimizer_init params_gradient_transform_init)

section \<open>How the notebook ends\<close>

lemma scheduled_loop_decaying:
  "scheduled_loop (decaying_global_norm_tx L) e = decaying_loop L e"
proof -
  have "scheduled_step (decaying_global_norm_tx L) = decaying_step L"
    by (rule ext) (simp add: decaying_step_def)
  then show ?thesis
    by (simp add: scheduled_loop_def decaying_loop_def)
qed

lemma cell_scheduled_outcome:
  "cell_scheduled tx e =
     (let e3 = scheduled_init tx e;
          e4 = scheduled_loop tx e3
      in case hyperparams (opt_state e3) ''max_norm'' of
           None \<Rightarrow> Inl (KeyError ''max_norm'')
         | Some v0 \<Rightarrow>
             if v0 \<noteq> 1.0 then Inl (AssertionError ''Max norm should start at 1.0'')
             else (case hyperparams (opt_state e4) ''max_norm'' of
                     None \<Rightarrow> Inl (KeyError ''max_norm'')
                   | Some v100 \<Rightarrow>
                       if v100 \<noteq> 0.0 then Inl (AssertionError ''Max norm should end at 0.0'')
                       else Inr e4))"
  by (simp add: cell_scheduled_def and_then_def py_assert_def getitem_def Let_def
           split: option.splits)

lemma notebook_with_outcome:
  "notebook_with L tx =
    (let e1 = optimizer_loop L (cell_optimizer_init L (cell_data L));
         e2 = gradient_transform_loop L e1
     in if \<not> jnp_allclose L (params e1) target_params
        then Inl (AssertionError
               ''Optimization should retrive the target params used to generate the data.'')
        else if \<not> jnp_allclose L (params e2) target_params
        then Inl (AssertionError
               ''Optimization should retrive the target params used to generate the data.'')
        else cell_scheduled tx e2)"
  by (simp add: notebook_with_def cell_optimizer_loop_def cell_gradient_transform_loop_def
                and_then_def py_assert_def Let_def)

lemma cell_decaying_returns:
  "cell_decaying L e = Inr (decaying_loop L (decaying_init L e))"
  using max_norm_after_init[of L e] max_norm_after_loop[of L e]
  by (simp add: cell_decaying_def cell_scheduled_outcome Let_def scheduled_loop_decaying
                decaying_init_def[symmetric])

text \<open>
  C7. The run of the notebook over any library, with the last cell on any transformation
  \<open>tx\<close> whose states have the field \<^verbatim>\<open>hyperparams\<close>. It ends with the \<^verbatim>\<open>AssertionError\<close> of
  the first of the four assertions whose condition is false, or with the \<^verbatim>\<open>KeyError\<close> of
  the first lookup of \<^verbatim>\<open>'max_norm'\<close> that finds no such key, and nothing after the
  statement that raised is run; it ends normally, with the variables as the last loop
  left them, when nothing raised. On the transformation the notebook builds itself both
  lookups find their key: the notebook ends normally or with an \<^verbatim>\<open>AssertionError\<close>, and it
  ends normally exactly when all four conditions hold. The calls into the library are
  taken to return.
\<close>

theorem notebook_outcome:
  "notebook_with L tx =
    (let e1 = optimizer_loop L (cell_optimizer_init L (cell_data L));
         e2 = gradient_transform_loop L e1;
         e3 = scheduled_init tx e2;
         e4 = scheduled_loop tx e3
     in if \<not> jnp_allclose L (params e1) target_params
        then Inl (AssertionError
               ''Optimization should retrive the target params used to generate the data.'')
        else if \<not> jnp_allclose L (params e2) target_params
        then Inl (AssertionError
               ''Optimization should retrive the target params used to generate the data.'')
        else case hyperparams (opt_state e3) ''max_norm'' of
               None \<Rightarrow> Inl (KeyError ''max_norm'')
             | Some v0 \<Rightarrow>
                 if v0 \<noteq> 1.0 then Inl (AssertionError ''Max norm should start at 1.0'')
                 else (case hyperparams (opt_state e4) ''max_norm'' of
                         None \<Rightarrow> Inl (KeyError ''max_norm'')
                       | Some v100 \<Rightarrow>
                           if v100 \<noteq> 0.0
                           then Inl (AssertionError ''Max norm should end at 0.0'')
                           else Inr e4))
   \<and> notebook L = notebook_with L (decaying_global_norm_tx L)
   \<and> (case notebook L of
         Inl (AssertionError msg) \<Rightarrow> True
       | Inl (KeyError k) \<Rightarrow> False
       | Inr e \<Rightarrow> True)
   \<and> (let e1 = optimizer_loop L (cell_optimizer_init L (cell_data L));
           e2 = gradient_transform_loop L e1;
           e3 = decaying_init L e2;
           e4 = decaying_loop L e3
       in (notebook L = Inr e4) =
            (jnp_allclose L (params e1) target_params
             \<and> jnp_allclose L (params e2) target_params
             \<and> hyperparams (opt_state e3) ''max_norm'' = Some 1.0
             \<and> hyperparams (opt_state e4) ''max_norm'' = Some 0.0))"
proof -
  have general: "notebook_with L tx =
    (let e1 = optimizer_loop L (cell_optimizer_init L (cell_data L));
         e2 = gradient_transform_loop L e1;
         e3 = scheduled_init tx e2;
         e4 = scheduled_loop tx e3
     in if \<not> jnp_allclose L (params e1) target_params
        then Inl (AssertionError
               ''Optimization should retrive the target params used to generate the data.'')
        else if \<not> jnp_allclose L (params e2) target_params
        then Inl (AssertionError
               ''Optimization should retrive the target params used to generate the data.'')
        else case hyperparams (opt_state e3) ''max_norm'' of
               None \<Rightarrow> Inl (KeyError ''max_norm'')
             | Some v0 \<Rightarrow>
                 if v0 \<noteq> 1.0 then Inl (AssertionError ''Max norm should start at 1.0'')
                 else (case hyperparams (opt_state e4) ''max_norm'' of
                         None \<Rightarrow> Inl (KeyError ''max_norm'')
                       | Some v100 \<Rightarrow>
                           if v100 \<noteq> 0.0
                           then Inl (AssertionError ''Max norm should end at 0.0'')
                           else Inr e4))"
    unfolding notebook_with_outcome cell_scheduled_outcome by (simp add: Let_def)
  have own: "notebook L =
    (let e1 = optimizer_loop L (cell_optimizer_init L (cell_data L));
         e2 = gradient_transform_loop L e1
     in if \<not> jnp_allclose L (params e1) target_params
        then Inl (AssertionError
               ''Optimization should retrive the target params used to generate the data.'')
        else if \<not> jnp_allclose L (params e2) target_params
        then Inl (AssertionError
               ''Optimization should retrive the target params used to generate the data.'')
        else Inr (decaying_loop L (decaying_init L e2)))"
    unfolding notebook_def notebook_with_outcome
    by (simp add: Let_def cell_decaying_returns[unfolded cell_decaying_def])
  have only_assertions: "(case notebook L of
         Inl (AssertionError msg) \<Rightarrow> True
       | Inl (KeyError k) \<Rightarrow> False
       | Inr e \<Rightarrow> True)"
    unfolding own by (simp add: Let_def)
  have normal_end: "(let e1 = optimizer_loop L (cell_optimizer_init L (cell_data L));
           e2 = gradient_transform_loop L e1;
           e3 = decaying_init L e2;
           e4 = decaying_loop L e3
       in (notebook L = Inr e4) =
            (jnp_allclose L (params e1) target_params
             \<and> jnp_allclose L (params e2) target_params
             \<and> hyperparams (opt_state e3) ''max_norm'' = Some 1.0
             \<and> hyperparams (opt_state e4) ''max_norm'' = Some 0.0))"
    unfolding own by (simp add: Let_def max_norm_after_init max_norm_after_loop)
  from general only_assertions normal_end show ?thesis
    by (simp only: notebook_def simp_thms)
qed

lemma constant_hyperparams_init:
  "hyperparams (opt_state (scheduled_init (constant_hyperparams d) e)) = d"
  by (simp add: scheduled_init_def constant_hyperparams_def Let_def)

lemma constant_hyperparams_loop:
  "opt_state (scheduled_loop (constant_hyperparams d) e) = opt_state e"
proof -
  have "opt_state (scheduled_step (constant_hyperparams d) e') = opt_state e'" for e' :: "(unit InjectHyperparamsState) env"
    by (simp add: scheduled_step_def constant_hyperparams_def)
  then show ?thesis
    unfolding scheduled_loop_def by (rule funpow_frame)
qed

lemma stub_library_allclose: "jnp_allclose (stub_library close) a b = close"
  by (simp add: stub_library_def)

theorem notebook_outcome_witness:
  "notebook (stub_library False) =
     Inl (AssertionError
       ''Optimization should retrive the target params used to generate the data.'')
   \<and> (\<exists>e. notebook (stub_library True) = Inr e)
   \<and> notebook_with (stub_library True) (constant_hyperparams [''max_norm'' \<mapsto> 5]) =
       Inl (AssertionError ''Max norm should start at 1.0'')
   \<and> notebook_with (stub_library True) (constant_hyperparams [''max_norm'' \<mapsto> 1]) =
       Inl (AssertionError ''Max norm should end at 0.0'')
   \<and> notebook_with (stub_library True) (constant_hyperparams Map.empty) =
       Inl (KeyError ''max_norm'')"
proof -
  have "notebook (stub_library False) =
     Inl (AssertionError
       ''Optimization should retrive the target params used to generate the data.'')"
    using notebook_outcome[of "stub_library False" "decaying_global_norm_tx (stub_library False)"]
    by (simp add: Let_def stub_library_allclose)
  moreover have "\<exists>e. notebook (stub_library True) = Inr e"
  proof -
    have "notebook (stub_library True) =
        Inr (decaying_loop (stub_library True) (decaying_init (stub_library True)
          (gradient_transform_loop (stub_library True)
            (optimizer_loop (stub_library True)
              (cell_optimizer_init (stub_library True) (cell_data (stub_library True)))))))"
      using notebook_outcome[of "stub_library True" "decaying_global_norm_tx (stub_library True)",
              THEN conjunct2, THEN conjunct2, THEN conjunct2]
      by (simp add: Let_def stub_library_allclose max_norm_after_init max_norm_after_loop)
    then show ?thesis by blast
  qed
  moreover have
    "notebook_with (stub_library True) (constant_hyperparams [''max_norm'' \<mapsto> 5]) =
       Inl (AssertionError ''Max norm should start at 1.0'')"
    using notebook_outcome[of "stub_library True" "constant_hyperparams [''max_norm'' \<mapsto> 5]"]
    by (simp add: Let_def constant_hyperparams_init stub_library_allclose)
  moreover have
    "notebook_with (stub_library True) (constant_hyperparams [''max_norm'' \<mapsto> 1]) =
       Inl (AssertionError ''Max norm should end at 0.0'')"
    using notebook_outcome[of "stub_library True" "constant_hyperparams [''max_norm'' \<mapsto> 1]"]
    by (simp add: Let_def constant_hyperparams_init constant_hyperparams_loop
                  stub_library_allclose)
  moreover have
    "notebook_with (stub_library True) (constant_hyperparams Map.empty) =
       Inl (KeyError ''max_norm'')"
    using notebook_outcome[of "stub_library True" "constant_hyperparams Map.empty"]
    by (simp add: Let_def constant_hyperparams_init stub_library_allclose)
  ultimately show ?thesis by simp
qed

end
